theory Spec2Isabelle
  imports Complex_Main
begin

section \<open>JavaScript numbers\<close>

text \<open>
  A JavaScript number is an IEEE 754 binary64 value: a finite double, an infinity or NaN.
  A finite double is modelled by the real number it stands for, so the two zeros are one
  value (they are equal under \<open>==\<close>, and sums and products do not tell them apart
  except in the sign of a zero result).
\<close>

datatype number = Finite real | PosInf | NegInf | NaN

text \<open>The least exponent of a normal double, and the greatest exponent.\<close>

definition emin :: int where
  "emin = - 1022"

definition emax :: int where
  "emax = 1023"

text \<open>
  The exponent of the binade a nonzero real lies in; a real below the normal range has
  the exponent of the subnormal doubles.
\<close>

definition binade :: "real \<Rightarrow> int" where
  "binade x = max \<lfloor>log 2 \<bar>x\<bar>\<rfloor> emin"

text \<open>The distance between neighbouring doubles around \<open>x\<close>: 52 fraction bits.\<close>

definition ulp :: "real \<Rightarrow> real" where
  "ulp x = 2 powi (binade x - 52)"

text \<open>Rounding to the nearest integer, a tie going to the even one.\<close>

definition ties_to_even :: "real \<Rightarrow> int" where
  "ties_to_even q =
     (let f = \<lfloor>q\<rfloor> in
      if q - of_int f < 1 / 2 then f
      else if 1 / 2 < q - of_int f then f + 1
      else if even f then f else f + 1)"

text \<open>
  Rounding a real to the nearest multiple of its \<open>ulp\<close> (round to nearest, ties to
  even), with no bound on the exponent from above.
\<close>

definition round64 :: "real \<Rightarrow> real" where
  "round64 x = (if x = 0 then 0 else of_int (ties_to_even (x / ulp x)) * ulp x)"

text \<open>
  The double an exact result rounds to: an infinity when the rounded magnitude exceeds
  the largest finite double, that is, reaches \<open>2 ^ 1024\<close>.
\<close>

definition to_number :: "real \<Rightarrow> number" where
  "to_number x =
     (let r = round64 x in
      if 2 powi (emax + 1) \<le> r then PosInf
      else if r \<le> - (2 powi (emax + 1)) then NegInf
      else Finite r)"

text \<open>A decimal literal of the source denotes the double nearest to it.\<close>

definition lit :: "real \<Rightarrow> number" where
  "lit r = to_number r"

text \<open>The operator \<open>+\<close> on numbers.\<close>

fun fadd :: "number \<Rightarrow> number \<Rightarrow> number" where
  "fadd (Finite a) (Finite b) = to_number (a + b)"
| "fadd NaN y = NaN"
| "fadd x NaN = NaN"
| "fadd PosInf NegInf = NaN"
| "fadd NegInf PosInf = NaN"
| "fadd PosInf y = PosInf"
| "fadd x PosInf = PosInf"
| "fadd NegInf y = NegInf"
| "fadd x NegInf = NegInf"

text \<open>The operator \<open>*\<close> on numbers.\<close>

fun fmul :: "number \<Rightarrow> number \<Rightarrow> number" where
  "fmul (Finite a) (Finite b) = to_number (a * b)"
| "fmul NaN y = NaN"
| "fmul x NaN = NaN"
| "fmul (Finite a) PosInf = (if a = 0 then NaN else if 0 < a then PosInf else NegInf)"
| "fmul (Finite a) NegInf = (if a = 0 then NaN else if 0 < a then NegInf else PosInf)"
| "fmul PosInf (Finite b) = (if b = 0 then NaN else if 0 < b then PosInf else NegInf)"
| "fmul NegInf (Finite b) = (if b = 0 then NaN else if 0 < b then NegInf else PosInf)"
| "fmul PosInf PosInf = PosInf"
| "fmul PosInf NegInf = NegInf"
| "fmul NegInf PosInf = NegInf"
| "fmul NegInf NegInf = PosInf"

text \<open>
  The unit roundoff of binary64 and half the least subnormal double: rounding a real \<open>x\<close>
  moves it by at most \<open>unit_roundoff * \<bar>x\<bar> + half_min_subnormal\<close>.
\<close>

definition unit_roundoff :: real where
  "unit_roundoff = 2 powi (- 53)"

definition half_min_subnormal :: real where
  "half_min_subnormal = 2 powi (emin - 53)"

text \<open>
  The bound on the error of \<open>n\<close> accumulated additions of rounded products to a rounded
  start, for an exact result whose terms have absolute values that sum to \<open>A\<close>.
\<close>

definition rounding_bound :: "nat \<Rightarrow> real \<Rightarrow> real" where
  "rounding_bound n A =
     ((1 + unit_roundoff) ^ (n + 2) - 1) * A +
     3 * real n * (1 + unit_roundoff) ^ n * half_min_subnormal"

section \<open>Exceptions\<close>

datatype js_error = ReferenceError | TypeError | DOMException

section \<open>The 3D scene of \<open>page.tsx\<close>\<close>

text \<open>A three.js \<open>Vector3\<close> or \<open>Euler\<close>: three numbers.\<close>

record vec3 =
  vx :: number
  vy :: number
  vz :: number

definition vec :: "number \<Rightarrow> number \<Rightarrow> number \<Rightarrow> vec3" where
  "vec a b c = \<lparr>vx = a, vy = b, vz = c\<rparr>"

text \<open>
  A three.js \<open>Object3D\<close> with the properties the JSX of the page sets. A property the JSX
  does not give keeps the three.js default: position and rotation \<open>(0, 0, 0)\<close>,
  \<open>castShadow\<close> and \<open>receiveShadow\<close> false.
\<close>

record object3d =
  position :: vec3
  rotation :: vec3
  castShadow :: bool
  receiveShadow :: bool

record group3d = object3d +
  children :: "object3d list"

definition ORBIT_RADIUS :: number where
  "ORBIT_RADIUS = lit 2.1"

text \<open>
  \<open>Math.PI\<close> is the double nearest to \<open>\<pi>\<close>; \<open>Math.PI / 2.8\<close> is the rounded quotient of
  two finite doubles, the divisor not zero.
\<close>

definition Math_PI :: real where
  "Math_PI = round64 pi"

definition ORBIT_TILT :: vec3 where
  "ORBIT_TILT = vec (to_number (Math_PI / round64 2.8)) (lit 0.2) (lit 0)"

text \<open>The \<open>mesh\<close> element that \<open>Planet\<close> returns.\<close>

definition Planet_mesh :: object3d where
  "Planet_mesh =
     \<lparr>position = vec (lit 0) (lit 0) (lit 0), rotation = vec (lit 0) (lit 0) (lit 0),
      castShadow = True, receiveShadow = True\<rparr>"

text \<open>The \<open>mesh\<close> element that \<open>OrbitRing\<close> returns.\<close>

definition OrbitRing_mesh :: object3d where
  "OrbitRing_mesh =
     \<lparr>position = vec (lit 0) (lit 0) (lit 0),
      rotation = vec (to_number (Math_PI / round64 2.8)) (lit 0.2) (lit 0),
      castShadow = False, receiveShadow = False\<rparr>"

text \<open>The \<open>group\<close> element that \<open>MoonOrbit\<close> returns, with the moon mesh as its child.\<close>

definition Moon_mesh :: object3d where
  "Moon_mesh =
     \<lparr>position = vec (lit 2.1) (lit 0) (lit 0), rotation = vec (lit 0) (lit 0) (lit 0),
      castShadow = True, receiveShadow = False\<rparr>"

definition MoonOrbit_group :: group3d where
  "MoonOrbit_group =
     \<lparr>position = vec (lit 0) (lit 0) (lit 0), rotation = vec (lit 0.25) (lit 0.2) (lit 0),
      castShadow = False, receiveShadow = False, children = [Moon_mesh]\<rparr>"

text \<open>
  The objects the frame callbacks can reach. \<open>planetRef\<close> and \<open>groupRef\<close> are the
  \<open>current\<close> fields of the two \<open>useRef\<close> cells (\<open>None\<close> is \<open>null\<close>); the ring has no ref
  and no callback.
\<close>

record scene =
  planetRef :: "object3d option"
  orbitRing :: object3d
  groupRef :: "group3d option"

text \<open>The scene once React has attached both refs.\<close>

definition mounted_scene :: scene where
  "mounted_scene =
     \<lparr>planetRef = Some Planet_mesh, orbitRing = OrbitRing_mesh,
      groupRef = Some MoonOrbit_group\<rparr>"

text \<open>The scene before the refs are attached.\<close>

definition unattached_scene :: scene where
  "unattached_scene = \<lparr>planetRef = None, orbitRing = OrbitRing_mesh, groupRef = None\<rparr>"

text \<open>
  Reading a property of \<open>ref.current\<close>: a \<open>TypeError\<close> when \<open>ref.current\<close> is \<open>null\<close>.
\<close>

definition deref :: "'a option \<Rightarrow> js_error + 'a" where
  "deref r = (case r of None \<Rightarrow> Inl TypeError | Some obj \<Rightarrow> Inr obj)"

text \<open>
  The callback \<open>Planet\<close> gives to \<open>useFrame\<close>:
  \<open>if (planetRef.current) { planetRef.current.rotation.y += delta * 0.1; }\<close>.
  An object is truthy and \<open>null\<close> is falsy. \<open>Inl e\<close>: the callback throws \<open>e\<close>.
\<close>

definition Planet_useFrame :: "number \<Rightarrow> scene \<Rightarrow> js_error + scene" where
  "Planet_useFrame delta s =
     (if planetRef s \<noteq> None
      then (case deref (planetRef s) of
              Inl e \<Rightarrow> Inl e
            | Inr m \<Rightarrow>
                Inr (s\<lparr>planetRef :=
                         Some (m\<lparr>rotation := (rotation m)
                                 \<lparr>vy := fadd (vy (rotation m)) (fmul delta (lit 0.1))\<rparr>\<rparr>)\<rparr>))
      else Inr s)"

text \<open>
  The callback \<open>MoonOrbit\<close> gives to \<open>useFrame\<close>:
  \<open>if (group.current) { group.current.rotation.y += delta * 0.4; }\<close>.
\<close>

definition MoonOrbit_useFrame :: "number \<Rightarrow> scene \<Rightarrow> js_error + scene" where
  "MoonOrbit_useFrame delta s =
     (if groupRef s \<noteq> None
      then (case deref (groupRef s) of
              Inl e \<Rightarrow> Inl e
            | Inr g \<Rightarrow>
                Inr (s\<lparr>groupRef :=
                         Some (g\<lparr>rotation := (rotation g)
                                 \<lparr>vy := fadd (vy (rotation g)) (fmul delta (lit 0.4))\<rparr>\<rparr>)\<rparr>))
      else Inr s)"

text \<open>
  One frame of the render loop calls every registered callback with the same delta, in
  the order of registration: \<open>Planet\<close> is mounted before \<open>MoonOrbit\<close>. An exception of
  a callback leaves the frame.
\<close>

definition frame_tick :: "number \<Rightarrow> scene \<Rightarrow> js_error + scene" where
  "frame_tick delta s =
     (case Planet_useFrame delta s of
        Inl e \<Rightarrow> Inl e
      | Inr s' \<Rightarrow> MoonOrbit_useFrame delta s')"

fun frame_ticks :: "number list \<Rightarrow> scene \<Rightarrow> js_error + scene" where
  "frame_ticks [] s = Inr s"
| "frame_ticks (d # ds) s =
     (case frame_tick d s of
        Inl e \<Rightarrow> Inl e
      | Inr s' \<Rightarrow> frame_ticks ds s')"

text \<open>\<open>planetRef.current.rotation.y\<close> and \<open>group.current.rotation.y\<close>, where the ref is set.\<close>

definition planet_rotation_y :: "scene \<Rightarrow> number option" where
  "planet_rotation_y s = map_option (\<lambda>m. vy (rotation m)) (planetRef s)"

definition group_rotation_y :: "scene \<Rightarrow> number option" where
  "group_rotation_y s = map_option (\<lambda>g. vy (rotation g)) (groupRef s)"

text \<open>The two angles after the ticks \<open>ds\<close> on the mounted scene.\<close>

definition spin_after :: "number list \<Rightarrow> number option" where
  "spin_after ds =
     (case frame_ticks ds mounted_scene of Inl e \<Rightarrow> None | Inr s \<Rightarrow> planet_rotation_y s)"

definition orbit_after :: "number list \<Rightarrow> number option" where
  "orbit_after ds =
     (case frame_ticks ds mounted_scene of Inl e \<Rightarrow> None | Inr s \<Rightarrow> group_rotation_y s)"

text \<open>
  The scene with the two animated angles set to zero: two scenes with the same image
  agree on everything but \<open>planetRef.current.rotation.y\<close> and \<open>group.current.rotation.y\<close>.
\<close>

definition without_spin :: "scene \<Rightarrow> scene" where
  "without_spin s =
     s\<lparr>planetRef := map_option (\<lambda>m. m\<lparr>rotation := (rotation m)\<lparr>vy := Finite 0\<rparr>\<rparr>) (planetRef s),
       groupRef := map_option (\<lambda>g. g\<lparr>rotation := (rotation g)\<lparr>vy := Finite 0\<rparr>\<rparr>) (groupRef s)\<rparr>"

section \<open>The lights\<close>

datatype light_kind = AmbientLight | DirectionalLight | PointLight

text \<open>
  A light element of \<open>Lights\<close> with the props the JSX gives it. \<open>light_castShadow\<close> is
  whether the \<open>castShadow\<close> prop is present (the three.js default is false);
  \<open>shadow_mapSize\<close> is the pair of \<open>shadow-mapSize-width\<close> and \<open>shadow-mapSize-height\<close>.
\<close>

record light =
  kind :: light_kind
  light_position :: "vec3 option"
  intensity :: number
  light_castShadow :: bool
  shadow_mapSize :: "(nat \<times> nat) option"

definition Lights :: "light list" where
  "Lights =
     [\<lparr>kind = AmbientLight, light_position = None, intensity = lit 0.35,
       light_castShadow = False, shadow_mapSize = None\<rparr>,
      \<lparr>kind = DirectionalLight, light_position = Some (vec (lit 3) (lit 2) (lit 4)), intensity = lit 1.1,
       light_castShadow = True, shadow_mapSize = Some (1024, 1024)\<rparr>,
      \<lparr>kind = PointLight, light_position = Some (vec (lit (- 4)) (lit (- 2)) (lit (- 3))), intensity = lit 0.6,
       light_castShadow = False, shadow_mapSize = None\<rparr>]"

section \<open>The hero section\<close>

datatype scene_component =
  Lights_component | Planet_component | OrbitRing_component | MoonOrbit_component

text \<open>The children of the \<open>section\<close> element that \<open>Hero3D\<close> returns, in document order.\<close>

datatype element =
  RadialGlow
  | Canvas "scene_component list"
  | FallbackNoWebGL
  | MotionDiv
  | ScrollIndicator

definition Hero3D :: "bool \<Rightarrow> element list" where
  "Hero3D hasWebGL =
     [RadialGlow,
      if hasWebGL
      then Canvas [Lights_component, Planet_component, OrbitRing_component, MoonOrbit_component]
      else FallbackNoWebGL,
      MotionDiv,
      ScrollIndicator]"

fun is_Canvas :: "element \<Rightarrow> bool" where
  "is_Canvas (Canvas cs) = True"
| "is_Canvas e = False"

fun is_Fallback :: "element \<Rightarrow> bool" where
  "is_Fallback FallbackNoWebGL = True"
| "is_Fallback e = False"

text \<open>The light elements a component of the scene renders: only \<open>Lights\<close> renders any.\<close>

fun component_lights :: "scene_component \<Rightarrow> light list" where
  "component_lights Lights_component = Lights"
| "component_lights c = []"

fun element_lights :: "element \<Rightarrow> light list" where
  "element_lights (Canvas cs) = concat (map component_lights cs)"
| "element_lights e = []"

definition view_lights :: "element list \<Rightarrow> light list" where
  "view_lights v = concat (map element_lights v)"

section \<open>The capability probe\<close>

datatype rendering_context = RenderingContext

text \<open>
  The canvas that \<open>document.createElement("canvas")\<close> returns. \<open>getContext name\<close> throws
  (\<open>Inl\<close>), returns \<open>null\<close> (\<open>Inr None\<close>) or returns a context object.
\<close>

record canvas =
  getContext :: "string \<Rightarrow> js_error + rendering_context option"

text \<open>
  What the effect of \<open>useHasWebGL\<close> reads from the browser: the outcome of
  \<open>document.createElement("canvas")\<close> (\<open>Inl\<close> when it throws, as it does when \<open>document\<close>
  is not defined), whether \<open>typeof window !== "undefined"\<close>, and whether
  \<open>window.WebGLRenderingContext\<close> is truthy.
\<close>

record browser_env =
  createElement_canvas :: "js_error + canvas"
  window_defined :: bool
  window_WebGLRenderingContext :: bool

text \<open>
  The statements of the \<open>try\<close> block up to the value of \<open>ok\<close>. \<open>&&\<close> and \<open>||\<close> evaluate
  their right operand only when the left one does not decide the result.
\<close>

definition probe_ok :: "browser_env \<Rightarrow> js_error + bool" where
  "probe_ok env =
     (case createElement_canvas env of
        Inl e \<Rightarrow> Inl e
      | Inr cv \<Rightarrow>
          if \<not> window_defined env then Inr False
          else if \<not> window_WebGLRenderingContext env then Inr False
          else (case getContext cv ''webgl'' of
                  Inl e \<Rightarrow> Inl e
                | Inr (Some c) \<Rightarrow> Inr True
                | Inr None \<Rightarrow>
                    (case getContext cv ''experimental-webgl'' of
                       Inl e \<Rightarrow> Inl e
                     | Inr (Some c) \<Rightarrow> Inr True
                     | Inr None \<Rightarrow> Inr False)))"

text \<open>\<open>setHas(b)\<close> does not throw; its result here is the new value of the state.\<close>

definition setHas :: "bool \<Rightarrow> js_error + bool" where
  "setHas b = Inr b"

text \<open>\<open>try { body } catch { handler }\<close>: the handler runs when the body throws.\<close>

definition try_catch :: "js_error + 'a \<Rightarrow> js_error + 'a \<Rightarrow> js_error + 'a" where
  "try_catch body handler = (case body of Inl e \<Rightarrow> handler | Inr v \<Rightarrow> Inr v)"

text \<open>
  The effect of \<open>useHasWebGL\<close>. \<open>Inr b\<close>: the effect returns after \<open>setHas(b)\<close>;
  \<open>Inl e\<close>: the exception \<open>e\<close> leaves the effect.
\<close>

definition useHasWebGL_effect :: "browser_env \<Rightarrow> js_error + bool" where
  "useHasWebGL_effect env =
     try_catch (case probe_ok env of Inl e \<Rightarrow> Inl e | Inr ok \<Rightarrow> setHas ok) (setHas False)"

text \<open>Observations of an environment that the properties below speak about.\<close>

definition exposes_constructor :: "browser_env \<Rightarrow> bool" where
  "exposes_constructor env = (window_defined env \<and> window_WebGLRenderingContext env)"

definition creates_context :: "canvas \<Rightarrow> string \<Rightarrow> bool" where
  "creates_context cv name = (case getContext cv name of Inr (Some c) \<Rightarrow> True | _ \<Rightarrow> False)"

definition throws :: "js_error + 'a \<Rightarrow> bool" where
  "throws r = (case r of Inl e \<Rightarrow> True | Inr v \<Rightarrow> False)"

subsection \<open>The hook over the lifetime of the page\<close>

text \<open>
  The state of \<open>useHasWebGL\<close> in one mounted \<open>Hero3D\<close>: the \<open>useState\<close> cell \<open>has\<close>, whether
  the component has been committed once (\<open>mounted\<close>), and how many times the effect has run.
\<close>

record hook_state =
  has :: bool
  mounted :: bool
  probes :: nat

text \<open>\<open>React.useState(true)\<close>, before the first render.\<close>

definition initial_hook :: hook_state where
  "initial_hook = \<lparr>has = True, mounted = False, probes = 0\<rparr>"

text \<open>
  One render pass: \<open>Hero3D\<close> renders with the current \<open>has\<close>, and the pass is committed.
  An effect with the dependency list \<open>[]\<close> runs after the first commit only. The
  environment is the one the browser offers during this pass.
\<close>

definition render_pass :: "browser_env \<Rightarrow> hook_state \<Rightarrow> js_error + (element list \<times> hook_state)" where
  "render_pass env h =
     (let view = Hero3D (has h) in
      if mounted h then Inr (view, h)
      else (case useHasWebGL_effect env of
              Inl e \<Rightarrow> Inl e
            | Inr b \<Rightarrow> Inr (view, h\<lparr>has := b, mounted := True, probes := probes h + 1\<rparr>)))"

text \<open>The render passes of a page, one environment for each; the views are in order.\<close>

fun render_passes :: "browser_env list \<Rightarrow> hook_state \<Rightarrow> js_error + (element list list \<times> hook_state)" where
  "render_passes [] h = Inr ([], h)"
| "render_passes (env # envs) h =
     (case render_pass env h of
        Inl e \<Rightarrow> Inl e
      | Inr (v, h') \<Rightarrow>
          (case render_passes envs h' of
             Inl e \<Rightarrow> Inl e
           | Inr (vs, h'') \<Rightarrow> Inr (v # vs, h'')))"

subsection \<open>Environments\<close>

text \<open>A browser with WebGL.\<close>

definition env_webgl :: browser_env where
  "env_webgl =
     \<lparr>createElement_canvas = Inr \<lparr>getContext = (\<lambda>name. Inr (Some RenderingContext))\<rparr>,
      window_defined = True, window_WebGLRenderingContext = True\<rparr>"

text \<open>A browser that has the constructor but creates no context for either name.\<close>

definition env_no_context :: browser_env where
  "env_no_context =
     \<lparr>createElement_canvas = Inr \<lparr>getContext = (\<lambda>name. Inr None)\<rparr>,
      window_defined = True, window_WebGLRenderingContext = True\<rparr>"

text \<open>An environment with no \<open>document\<close>, no \<open>window\<close> and no constructor.\<close>

definition env_no_apis :: browser_env where
  "env_no_apis =
     \<lparr>createElement_canvas = Inl ReferenceError, window_defined = False,
      window_WebGLRenderingContext = False\<rparr>"

text \<open>
  An environment whose \<open>getContext("webgl")\<close> throws and whose
  \<open>getContext("experimental-webgl")\<close> would return a context.
\<close>

definition canvas_webgl_throws :: canvas where
  "canvas_webgl_throws =
     \<lparr>getContext = (\<lambda>name. if name = ''webgl'' then Inl DOMException
                            else Inr (Some RenderingContext))\<rparr>"

definition env_webgl_throws :: browser_env where
  "env_webgl_throws =
     \<lparr>createElement_canvas = Inr canvas_webgl_throws, window_defined = True,
      window_WebGLRenderingContext = True\<rparr>"

section \<open>The style of the scroll indicator\<close>

datatype media_query = AllMedia | PrefersReducedMotion

datatype iteration_count = Infinite | Times nat

text \<open>
  A value of the \<open>animation\<close> property: \<open>none\<close>, or a keyframes name with its duration in
  seconds, timing function and iteration count.
\<close>

datatype animation = NoAnimation | Animation string real string iteration_count

text \<open>A rule of the style sheet that sets \<open>animation\<close>, with the media query around it.\<close>

record css_rule =
  media :: media_query
  selector :: string
  animation_value :: animation

text \<open>The two rules of the \<open>style\<close> element of \<open>ScrollIndicator\<close>, in source order.\<close>

definition ScrollIndicator_style :: "css_rule list" where
  "ScrollIndicator_style =
     [\<lparr>media = AllMedia, selector = ''#wheel'',
       animation_value = Animation ''wheel'' 1.8 ''ease-in-out'' Infinite\<rparr>,
      \<lparr>media = PrefersReducedMotion, selector = ''#wheel'', animation_value = NoAnimation\<rparr>]"

text \<open>
  A rule applies to an element when its media query matches and its selector selects the
  element. \<open>reduced\<close> is the user's \<open>prefers-reduced-motion: reduce\<close> setting.
\<close>

definition rule_applies :: "bool \<Rightarrow> string \<Rightarrow> css_rule \<Rightarrow> bool" where
  "rule_applies reduced sel r =
     ((case media r of AllMedia \<Rightarrow> True | PrefersReducedMotion \<Rightarrow> reduced) \<and> selector r = sel)"

text \<open>
  The cascade for rules of equal specificity: the last rule that applies wins, and
  \<open>animation\<close> is \<open>none\<close> when no rule applies.
\<close>

definition computed_animation :: "bool \<Rightarrow> string \<Rightarrow> css_rule list \<Rightarrow> animation" where
  "computed_animation reduced sel rules =
     foldl (\<lambda>acc r. if rule_applies reduced sel r then animation_value r else acc) NoAnimation rules"

section \<open>Properties of double arithmetic\<close>

lemma powr_powi2: "(2::real) powr real_of_int k = 2 powi k"
  by (simp add: powr_real_of_int')

lemma powi2_pos: "0 < (2::real) powi k"
  by simp

lemma powi2_le_abs_pos: "2 powi k \<le> \<bar>x::real\<bar> \<Longrightarrow> 0 < \<bar>x\<bar>"
  using powi2_pos [of k] by linarith

lemma floor_log2_eq:
  assumes "2 powi e \<le> \<bar>x\<bar>" and "\<bar>x\<bar> < 2 powi (e + 1)"
  shows "\<lfloor>log 2 \<bar>x\<bar>\<rfloor> = e"
proof -
  have pos: "0 < \<bar>x\<bar>" using assms(1) by (rule powi2_le_abs_pos)
  have "2 powr real_of_int e \<le> \<bar>x\<bar> \<and> \<bar>x\<bar> < 2 powr real_of_int (e + 1)"
    unfolding powr_powi2 using assms by blast
  then show ?thesis
    using floor_log_eq_powr_iff [OF pos, of 2 e] by simp
qed

lemma binade_eq:
  assumes "2 powi e \<le> \<bar>x\<bar>" and "\<bar>x\<bar> < 2 powi (e + 1)" and "emin \<le> e"
  shows "binade x = e"
  using floor_log2_eq [OF assms(1,2)] assms(3) by (simp add: binade_def)

text \<open>Rounding a real whose binade is known.\<close>

lemma round64_eq:
  assumes "2 powi e \<le> \<bar>x\<bar>" and "\<bar>x\<bar> < 2 powi (e + 1)" and "emin \<le> e"
  shows "round64 x = of_int (ties_to_even (x / 2 powi (e - 52))) * 2 powi (e - 52)"
proof -
  have "0 < \<bar>x\<bar>" using assms(1) by (rule powi2_le_abs_pos)
  then have "x \<noteq> 0" by auto
  then show ?thesis by (simp add: round64_def ulp_def binade_eq [OF assms])
qed

lemma binade_normal:
  assumes "2 powi emin \<le> \<bar>x\<bar>"
  shows "binade x = \<lfloor>log 2 \<bar>x\<bar>\<rfloor>"
proof -
  have pos: "0 < \<bar>x\<bar>" using assms by (rule powi2_le_abs_pos)
  have "2 powr real_of_int emin \<le> \<bar>x\<bar>"
    unfolding powr_powi2 using assms .
  then have "real_of_int emin \<le> log 2 \<bar>x\<bar>"
    using pos by (simp add: le_log_iff)
  then have "emin \<le> \<lfloor>log 2 \<bar>x\<bar>\<rfloor>" by (simp add: le_floor_iff)
  then show ?thesis by (simp add: binade_def)
qed

lemma binade_scale4:
  assumes "2 powi emin \<le> \<bar>x\<bar>"
  shows "binade (4 * x) = binade x + 2"
proof -
  have pos: "0 < \<bar>x\<bar>" using assms by (rule powi2_le_abs_pos)
  have "2 powi emin \<le> \<bar>4 * x\<bar>" using assms pos by (simp add: abs_mult)
  then have "binade (4 * x) = \<lfloor>log 2 \<bar>4 * x\<bar>\<rfloor>" by (rule binade_normal)
  also have "log 2 \<bar>4 * x\<bar> = log 2 4 + log 2 \<bar>x\<bar>"
    using pos by (simp add: abs_mult log_mult)
  also have "log 2 4 = (2::real)" using log_nat_power [of 2 2 2] by simp
  also have "\<lfloor>2 + log 2 \<bar>x\<bar>\<rfloor> = \<lfloor>log 2 \<bar>x\<bar>\<rfloor> + 2"
    by linarith
  finally show ?thesis by (simp add: binade_normal [OF assms])
qed

lemma ulp_scale4:
  assumes "2 powi emin \<le> \<bar>x\<bar>"
  shows "ulp (4 * x) = 4 * ulp x"
proof -
  have "(2::real) powi (binade x + 2 - 52) = 2 powi 2 * 2 powi (binade x - 52)"
    using power_int_add [of "2::real" 2 "binade x - 52"] by (simp add: add.commute)
  then show ?thesis by (simp add: ulp_def binade_scale4 [OF assms])
qed

text \<open>In the normal range, rounding commutes with a scaling by four.\<close>

lemma round64_scale4:
  assumes "2 powi emin \<le> \<bar>x\<bar>"
  shows "round64 (4 * x) = 4 * round64 x"
proof -
  have "0 < \<bar>x\<bar>" using assms by (rule powi2_le_abs_pos)
  then have nz: "x \<noteq> 0" by auto
  have u: "ulp x \<noteq> 0" by (simp add: ulp_def)
  show ?thesis
    using nz u by (simp add: round64_def ulp_scale4 [OF assms])
qed

lemma to_number_Finite: "to_number x = Finite r \<Longrightarrow> r = round64 x"
  by (simp add: to_number_def Let_def split: if_splits)

lemma overflow_bound: "(2::real) \<le> 2 powi (emax + 1)"
proof -
  have "(2::real) powi 1 \<le> 2 powi (emax + 1)"
    by (rule power_int_increasing) (simp_all add: emax_def)
  then show ?thesis by simp
qed

lemma to_number_small:
  assumes "round64 x = r" and "\<bar>r\<bar> < 2"
  shows "to_number x = Finite r"
proof -
  have "\<not> 2 powi (emax + 1) \<le> r" and "\<not> r \<le> - (2 powi (emax + 1))"
    using assms(2) overflow_bound by linarith+
  then show ?thesis by (simp add: to_number_def Let_def assms(1))
qed

lemma lit_0: "lit 0 = Finite 0"
  by (rule to_number_small [of 0 0, folded lit_def]) (simp_all add: round64_def)

text \<open>The doubles of the literals \<open>0.1\<close>, \<open>0.2\<close> and \<open>0.4\<close>.\<close>

lemma round64_tenth: "round64 (1 / 10) = 3602879701896397 / 2 ^ 55"
  by (subst round64_eq [of "- 4"]) (simp_all add: ties_to_even_def power_int_minus emin_def)

lemma round64_fifth: "round64 (1 / 5) = 3602879701896397 / 2 ^ 54"
  by (subst round64_eq [of "- 3"]) (simp_all add: ties_to_even_def power_int_minus emin_def)

lemma round64_two_fifths: "round64 (2 / 5) = 3602879701896397 / 2 ^ 53"
  by (subst round64_eq [of "- 2"]) (simp_all add: ties_to_even_def power_int_minus emin_def)

lemma lit_tenth: "lit 0.1 = Finite (3602879701896397 / 2 ^ 55)"
  unfolding lit_def by (rule to_number_small) (simp_all add: round64_tenth)

lemma lit_fifth: "lit 0.2 = Finite (3602879701896397 / 2 ^ 54)"
  unfolding lit_def by (rule to_number_small) (simp_all add: round64_fifth)

lemma lit_two_fifths: "lit 0.4 = Finite (3602879701896397 / 2 ^ 53)"
  unfolding lit_def by (rule to_number_small) (simp_all add: round64_two_fifths)

lemma round64_subnormal:
  assumes "x \<noteq> 0" and "\<bar>x\<bar> < 2 powi emin"
  shows "round64 x = of_int (ties_to_even (x / 2 powi (emin - 52))) * 2 powi (emin - 52)"
proof -
  have pos: "0 < \<bar>x\<bar>" using assms(1) by simp
  have "\<bar>x\<bar> < 2 powr real_of_int emin" unfolding powr_powi2 using assms(2) .
  then have "log 2 \<bar>x\<bar> < real_of_int emin" using pos by (simp add: log_less_iff)
  then have "\<lfloor>log 2 \<bar>x\<bar>\<rfloor> < emin" by linarith
  then have "binade x = emin" by (simp add: binade_def)
  then show ?thesis using assms(1) by (simp add: round64_def ulp_def)
qed

text \<open>
  Checks of the model on well-known doubles: \<open>0.1 + 0.2\<close> is \<open>0.30000000000000004\<close>;
  \<open>2 ^ 1024\<close> overflows and the largest finite double \<open>2 ^ 1024 - 2 ^ 971\<close> does not;
  half the least subnormal double rounds to zero and the least subnormal to itself.
\<close>

lemma fadd_tenth_fifth: "fadd (lit 0.1) (lit 0.2) = Finite (5404319552844596 / 2 ^ 54)"
  unfolding lit_tenth lit_fifth fadd.simps
  by (rule to_number_small, subst round64_eq [of "- 2"])
    (simp_all add: ties_to_even_def power_int_minus emin_def)

lemma to_number_overflow: "to_number (2 ^ 1024) = PosInf"
proof -
  have "round64 (2 ^ 1024) = 2 ^ 1024"
    by (subst round64_eq [of 1024]) (simp_all add: ties_to_even_def emin_def power_int_minus)
  then show ?thesis by (simp add: to_number_def emax_def)
qed

lemma to_number_max: "to_number (2 ^ 1024 - 2 ^ 971) = Finite (2 ^ 1024 - 2 ^ 971)"
proof -
  have "round64 (2 ^ 1024 - 2 ^ 971) = 2 ^ 1024 - 2 ^ 971"
    by (subst round64_eq [of 1023]) (simp_all add: ties_to_even_def emin_def power_int_minus)
  then show ?thesis by (simp add: to_number_def emax_def)
qed

lemma to_number_underflow: "to_number (2 powi (- 1075)) = Finite 0"
proof -
  have "round64 (2 powi (- 1075)) = 0"
    by (subst round64_subnormal) (simp_all add: ties_to_even_def emin_def power_int_minus)
  then show ?thesis by (simp add: to_number_def emax_def)
qed

lemma to_number_min: "to_number (2 powi (- 1074)) = Finite (2 powi (- 1074))"
proof -
  have "round64 (2 powi (- 1074)) = 2 powi (- 1074)"
    by (subst round64_subnormal) (simp_all add: ties_to_even_def emin_def power_int_minus)
  then show ?thesis by (simp add: to_number_def emax_def power_int_minus)
qed

text \<open>
  The product of a finite delta with the double \<open>0.4\<close> is four times its product with
  the double \<open>0.1\<close>, when both are finite and the exact product with \<open>0.1\<close> is zero or
  in the normal range.
\<close>

lemma fmul_scale4:
  assumes c: "lit 0.1 = Finite c"
    and range: "d = 0 \<or> 2 powi emin \<le> \<bar>d * c\<bar>"
    and p: "fmul (Finite d) (lit 0.1) = Finite p"
    and q: "fmul (Finite d) (lit 0.4) = Finite q"
  shows "q = 4 * p"
proof -
  have cv: "c = 3602879701896397 / 2 ^ 55" using c unfolding lit_tenth by simp
  have "fmul (Finite d) (lit 0.1) = to_number (d * c)" by (simp add: c)
  with p have pv: "p = round64 (d * c)" by (simp add: to_number_Finite)
  have "lit 0.4 = Finite (4 * c)" unfolding lit_two_fifths cv by simp
  then have "fmul (Finite d) (lit 0.4) = to_number (4 * (d * c))" by (simp add: mult.left_commute)
  with q have qv: "q = round64 (4 * (d * c))" by (simp add: to_number_Finite)
  from range show ?thesis
  proof
    assume "d = 0"
    then show ?thesis by (simp add: pv qv round64_def)
  next
    assume "2 powi emin \<le> \<bar>d * c\<bar>"
    then show ?thesis by (simp only: pv qv round64_scale4)
  qed
qed

text \<open>The error of one rounding.\<close>

lemma ties_to_even_error: "\<bar>of_int (ties_to_even q) - q\<bar> \<le> 1 / 2"
  unfolding ties_to_even_def Let_def by (auto; linarith)

lemma powi2_floor_log_le:
  assumes "x \<noteq> 0"
  shows "2 powi \<lfloor>log 2 \<bar>x\<bar>\<rfloor> \<le> \<bar>x\<bar>"
proof -
  have pos: "0 < \<bar>x\<bar>" using assms by simp
  have "2 powr real_of_int \<lfloor>log 2 \<bar>x\<bar>\<rfloor> \<le> \<bar>x\<bar>"
    using floor_log_eq_powr_iff [OF pos, of 2 "\<lfloor>log 2 \<bar>x\<bar>\<rfloor>"] by simp
  then show ?thesis by (simp only: powr_powi2)
qed

lemma half_ulp_bound:
  assumes "x \<noteq> 0"
  shows "ulp x / 2 \<le> unit_roundoff * \<bar>x\<bar> + half_min_subnormal"
proof -
  have half: "ulp x / 2 = 2 powi (binade x - 53)"
    using power_int_add [of "2::real" "binade x - 53" 1] by (simp add: ulp_def)
  show ?thesis
  proof (cases "emin \<le> \<lfloor>log 2 \<bar>x\<bar>\<rfloor>")
    case True
    then have b: "binade x = \<lfloor>log 2 \<bar>x\<bar>\<rfloor>" by (simp add: binade_def)
    have "2 powi (binade x - 53) = 2 powi binade x * unit_roundoff"
      using power_int_add [of "2::real" "binade x" "- 53"] by (simp add: unit_roundoff_def)
    also have "\<dots> \<le> \<bar>x\<bar> * unit_roundoff"
      using powi2_floor_log_le [OF assms] b
      by (intro mult_right_mono) (simp_all add: unit_roundoff_def)
    finally have "ulp x / 2 \<le> unit_roundoff * \<bar>x\<bar>" by (simp add: half mult.commute)
    moreover have "0 \<le> half_min_subnormal" by (simp add: half_min_subnormal_def)
    ultimately show ?thesis by linarith
  next
    case False
    then have "binade x = emin" by (simp add: binade_def)
    then have "ulp x / 2 = half_min_subnormal" by (simp add: half half_min_subnormal_def)
    moreover have "0 \<le> unit_roundoff * \<bar>x\<bar>" by (simp add: unit_roundoff_def)
    ultimately show ?thesis by linarith
  qed
qed

lemma round64_error:
  "\<bar>round64 x - x\<bar> \<le> unit_roundoff * \<bar>x\<bar> + half_min_subnormal"
proof (cases "x = 0")
  case True
  then show ?thesis by (simp add: round64_def half_min_subnormal_def)
next
  case False
  have u: "0 < ulp x" by (simp add: ulp_def)
  have "round64 x - x = (of_int (ties_to_even (x / ulp x)) - x / ulp x) * ulp x"
    using False u by (simp add: round64_def field_simps)
  then have "\<bar>round64 x - x\<bar> = \<bar>of_int (ties_to_even (x / ulp x)) - x / ulp x\<bar> * ulp x"
    using u by (simp add: abs_mult)
  also have "\<dots> \<le> 1 / 2 * ulp x"
    using ties_to_even_error [of "x / ulp x"] u by (intro mult_right_mono) simp_all
  finally have "\<bar>round64 x - x\<bar> \<le> ulp x / 2" by simp
  with half_ulp_bound [OF False] show ?thesis by linarith
qed

text \<open>One more addition of a rounded product keeps the accumulated bound.\<close>

lemma step_bound:
  fixes u w h A T R c p x b s :: real and m :: nat
  assumes w: "w = 1 + u" and u0: "0 \<le> u" and u1: "u \<le> 1" and h0: "0 \<le> h"
    and IH: "\<bar>b - T\<bar> \<le> (w ^ (m + 2) - 1) * A + 3 * real m * w ^ m * h"
    and T: "\<bar>T\<bar> \<le> A"
    and c: "\<bar>c - R\<bar> \<le> u * \<bar>R\<bar>"
    and p: "\<bar>p - x * c\<bar> \<le> u * \<bar>x * c\<bar> + h"
    and s: "\<bar>s - (b + p)\<bar> \<le> u * \<bar>b + p\<bar> + h"
  shows "\<bar>s - (T + R * x)\<bar> \<le>
    (w ^ (m + 3) - 1) * (A + \<bar>R\<bar> * \<bar>x\<bar>) + 3 * real (m + 1) * w ^ (m + 1) * h"
proof -
  define a where "a = \<bar>R\<bar> * \<bar>x\<bar>"
  define E where "E = (w ^ (m + 2) - 1) * A + 3 * real m * w ^ m * h"
  define ep where "ep = u * (w * a) + h + u * a"
  have a0: "0 \<le> a" by (simp add: a_def)
  have w1: "1 \<le> w" using w u0 by simp
  have wm: "1 \<le> w ^ m" using w1 by (rule one_le_power)
  have A0: "0 \<le> A" using T by linarith
  have "\<bar>c\<bar> \<le> \<bar>R\<bar> + u * \<bar>R\<bar>" using c by linarith
  then have cw: "\<bar>c\<bar> \<le> w * \<bar>R\<bar>" by (simp add: w algebra_simps)
  have "\<bar>x * c\<bar> = \<bar>x\<bar> * \<bar>c\<bar>" by (rule abs_mult)
  also have "\<dots> \<le> \<bar>x\<bar> * (w * \<bar>R\<bar>)" using cw by (intro mult_left_mono) simp_all
  finally have xc: "\<bar>x * c\<bar> \<le> w * a" by (simp add: a_def mult_ac)
  have "\<bar>x * c - R * x\<bar> = \<bar>x\<bar> * \<bar>c - R\<bar>"
    by (simp add: abs_mult [symmetric] algebra_simps)
  also have "\<dots> \<le> \<bar>x\<bar> * (u * \<bar>R\<bar>)" using c by (intro mult_left_mono) simp_all
  finally have xcR: "\<bar>x * c - R * x\<bar> \<le> u * a" by (simp add: a_def mult_ac)
  have "u * \<bar>x * c\<bar> \<le> u * (w * a)" using xc u0 by (rule mult_left_mono)
  with p xcR have pR: "\<bar>p - R * x\<bar> \<le> ep" unfolding ep_def by linarith
  have bT: "\<bar>b - T\<bar> \<le> E" using IH by (simp add: E_def)
  have diff: "\<bar>(b + p) - (T + R * x)\<bar> \<le> E + ep" using bT pR by linarith
  have "\<bar>T + R * x\<bar> \<le> \<bar>T\<bar> + \<bar>R * x\<bar>" by (rule abs_triangle_ineq)
  then have "\<bar>T + R * x\<bar> \<le> A + a" using T by (simp add: a_def abs_mult)
  with diff have bp: "\<bar>b + p\<bar> \<le> A + a + E + ep" by linarith
  have "u * \<bar>b + p\<bar> \<le> u * (A + a + E + ep)" using bp u0 by (rule mult_left_mono)
  with s diff have total: "\<bar>s - (T + R * x)\<bar> \<le> u * (A + a + E + ep) + h + E + ep"
    by linarith
  have eq: "u * (A + a + E + ep) + h + E + ep =
      (w ^ (m + 3) - 1) * A + (w ^ 3 - 1) * a + (3 * real m * w ^ (m + 1) + w + 1) * h"
    unfolding E_def ep_def w by (simp add: algebra_simps power_add power2_eq_square power3_eq_cube)
  have "w ^ 3 * 1 \<le> w ^ 3 * w ^ m" using wm w1 by (intro mult_left_mono) simp_all
  then have "w ^ 3 \<le> w ^ (m + 3)" by (simp add: power_add mult.commute)
  then have t1: "(w ^ 3 - 1) * a \<le> (w ^ (m + 3) - 1) * a"
    using a0 by (intro mult_right_mono) simp_all
  have "w + 1 \<le> 3" using w u1 by simp
  moreover have "(3::real) * 1 \<le> 3 * w ^ (m + 1)"
    using w1 by (intro mult_left_mono one_le_power) simp_all
  ultimately have "w + 1 \<le> 3 * w ^ (m + 1)" by simp
  then have "(3 * real m * w ^ (m + 1) + w + 1) * h \<le>
      (3 * real m * w ^ (m + 1) + 3 * w ^ (m + 1)) * h"
    using h0 by (intro mult_right_mono) simp_all
  also have "\<dots> = 3 * real (m + 1) * w ^ (m + 1) * h" by (simp add: algebra_simps)
  finally have t2: "(3 * real m * w ^ (m + 1) + w + 1) * h \<le> 3 * real (m + 1) * w ^ (m + 1) * h" .
  have "(w ^ (m + 3) - 1) * A + (w ^ 3 - 1) * a + (3 * real m * w ^ (m + 1) + w + 1) * h \<le>
      (w ^ (m + 3) - 1) * A + (w ^ (m + 3) - 1) * a + 3 * real (m + 1) * w ^ (m + 1) * h"
    using t1 t2 by linarith
  also have "\<dots> = (w ^ (m + 3) - 1) * (A + \<bar>R\<bar> * \<bar>x\<bar>) + 3 * real (m + 1) * w ^ (m + 1) * h"
    by (simp add: a_def algebra_simps)
  finally show ?thesis using total eq by linarith
qed

lemma unit_roundoff_range: "0 \<le> unit_roundoff" "unit_roundoff \<le> 1"
proof -
  show "0 \<le> unit_roundoff" by (simp add: unit_roundoff_def)
  have "(2::real) powi (- 53) \<le> 2 powi 0"
    by (rule power_int_increasing) simp_all
  then show "unit_roundoff \<le> 1" by (simp add: unit_roundoff_def)
qed

lemma half_min_subnormal_nonneg: "0 \<le> half_min_subnormal"
  by (simp add: half_min_subnormal_def)

lemma fadd_Finite:
  assumes "fadd y z = Finite a"
  shows "\<exists>b p. y = Finite b \<and> z = Finite p \<and> a = round64 (b + p)"
  using assms by (cases y; cases z) (auto dest: to_number_Finite)

lemma fmul_Finite:
  assumes "fmul (Finite x) (Finite c) = Finite p"
  shows "p = round64 (x * c)"
  using assms by (simp add: to_number_Finite)

text \<open>
  Adding the products of the deltas with a double \<open>c\<close> to a double \<open>i0\<close>, one after the
  other: while the result is finite, it is within the rounding bound of the exact value
  \<open>I + R * sum_list xs\<close>, for reals \<open>I\<close> and \<open>R\<close> that \<open>i0\<close> and \<open>c\<close> are roundings of.
\<close>

lemma accumulate_error:
  assumes c: "\<bar>c - R\<bar> \<le> unit_roundoff * \<bar>R\<bar>"
    and i: "\<bar>i0 - I\<bar> \<le> unit_roundoff * \<bar>I\<bar>"
  shows "foldl (\<lambda>a d. fadd a (fmul d (Finite c))) (Finite i0) (map Finite xs) = Finite a \<Longrightarrow>
    \<bar>a - (I + R * sum_list xs)\<bar> \<le>
      rounding_bound (length xs) (\<bar>I\<bar> + \<bar>R\<bar> * sum_list (map abs xs))"
proof (induction xs arbitrary: a rule: rev_induct)
  case Nil
  then have "a = i0" by simp
  moreover have "unit_roundoff * \<bar>I\<bar> \<le> ((1 + unit_roundoff) ^ 2 - 1) * \<bar>I\<bar>"
    using unit_roundoff_range by (intro mult_right_mono) (simp_all add: power2_eq_square algebra_simps)
  ultimately have "\<bar>a - I\<bar> \<le> ((1 + unit_roundoff) ^ 2 - 1) * \<bar>I\<bar>"
    using i by linarith
  then show ?case by (simp add: rounding_bound_def power2_eq_square)
next
  case (snoc x xs)
  let ?f = "\<lambda>a d. fadd a (fmul d (Finite c))"
  from snoc.prems have "fadd (foldl ?f (Finite i0) (map Finite xs)) (fmul (Finite x) (Finite c)) = Finite a"
    by simp
  then obtain b p where b: "foldl ?f (Finite i0) (map Finite xs) = Finite b"
    and p: "fmul (Finite x) (Finite c) = Finite p" and a: "a = round64 (b + p)"
    using fadd_Finite by blast
  have pv: "p = round64 (x * c)" using p by (rule fmul_Finite)
  have IH: "\<bar>b - (I + R * sum_list xs)\<bar> \<le>
      ((1 + unit_roundoff) ^ (length xs + 2) - 1) * (\<bar>I\<bar> + \<bar>R\<bar> * sum_list (map abs xs)) +
      3 * real (length xs) * (1 + unit_roundoff) ^ length xs * half_min_subnormal"
    using snoc.IH [OF b] by (simp add: rounding_bound_def)
  have "\<bar>R * sum_list xs\<bar> \<le> \<bar>R\<bar> * sum_list (map abs xs)"
    using sum_list_abs [of xs] by (simp add: abs_mult mult_left_mono)
  then have T: "\<bar>I + R * sum_list xs\<bar> \<le> \<bar>I\<bar> + \<bar>R\<bar> * sum_list (map abs xs)"
    by linarith
  have pe: "\<bar>p - x * c\<bar> \<le> unit_roundoff * \<bar>x * c\<bar> + half_min_subnormal"
    unfolding pv by (rule round64_error)
  have ae: "\<bar>a - (b + p)\<bar> \<le> unit_roundoff * \<bar>b + p\<bar> + half_min_subnormal"
    unfolding a by (rule round64_error)
  have main: "\<bar>a - (I + R * sum_list xs + R * x)\<bar> \<le>
      ((1 + unit_roundoff) ^ (length xs + 3) - 1) *
        (\<bar>I\<bar> + \<bar>R\<bar> * sum_list (map abs xs) + \<bar>R\<bar> * \<bar>x\<bar>) +
      3 * real (length xs + 1) * (1 + unit_roundoff) ^ (length xs + 1) * half_min_subnormal"
    by (rule step_bound [OF refl unit_roundoff_range half_min_subnormal_nonneg IH T c pe ae])
  have e1: "I + R * sum_list (xs @ [x]) = I + R * sum_list xs + R * x"
    by (simp add: algebra_simps)
  have e2: "\<bar>I\<bar> + \<bar>R\<bar> * sum_list (map abs (xs @ [x])) =
      \<bar>I\<bar> + \<bar>R\<bar> * sum_list (map abs xs) + \<bar>R\<bar> * \<bar>x\<bar>"
    by (simp add: algebra_simps)
  have e3: "length (xs @ [x]) = length xs + 1" by simp
  have e4: "length xs + 1 + 2 = length xs + 3" by simp
  show ?case
    unfolding rounding_bound_def e1 e2 e3 e4 by (rule main)
qed

lemma lit_tenth_error:
  "\<bar>3602879701896397 / 2 ^ 55 - 1 / 10\<bar> \<le> unit_roundoff * \<bar>1 / 10 :: real\<bar>"
  by (simp add: unit_roundoff_def power_int_minus)

lemma lit_fifth_error:
  "\<bar>3602879701896397 / 2 ^ 54 - 1 / 5\<bar> \<le> unit_roundoff * \<bar>1 / 5 :: real\<bar>"
  by (simp add: unit_roundoff_def power_int_minus)

lemma lit_two_fifths_error:
  "\<bar>3602879701896397 / 2 ^ 53 - 2 / 5\<bar> \<le> unit_roundoff * \<bar>2 / 5 :: real\<bar>"
  by (simp add: unit_roundoff_def power_int_minus)


section \<open>Properties of the frame callbacks\<close>

lemma Planet_useFrame_returns:
  "Planet_useFrame d s =
     Inr (case planetRef s of
            None \<Rightarrow> s
          | Some m \<Rightarrow>
              s\<lparr>planetRef :=
                  Some (m\<lparr>rotation := (rotation m)
                          \<lparr>vy := fadd (vy (rotation m)) (fmul d (lit 0.1))\<rparr>\<rparr>)\<rparr>)"
  by (cases "planetRef s") (simp_all add: Planet_useFrame_def deref_def)

lemma MoonOrbit_useFrame_returns:
  "MoonOrbit_useFrame d s =
     Inr (case groupRef s of
            None \<Rightarrow> s
          | Some g \<Rightarrow>
              s\<lparr>groupRef :=
                  Some (g\<lparr>rotation := (rotation g)
                          \<lparr>vy := fadd (vy (rotation g)) (fmul d (lit 0.4))\<rparr>\<rparr>)\<rparr>)"
  by (cases "groupRef s") (simp_all add: MoonOrbit_useFrame_def deref_def)

text \<open>A frame tick returns, moves the two angles and leaves the rest of the scene.\<close>

lemma frame_tick_returns:
  "\<exists>s'. frame_tick d s = Inr s' \<and>
        planet_rotation_y s' =
          map_option (\<lambda>a. fadd a (fmul d (lit 0.1))) (planet_rotation_y s) \<and>
        group_rotation_y s' =
          map_option (\<lambda>a. fadd a (fmul d (lit 0.4))) (group_rotation_y s) \<and>
        without_spin s' = without_spin s"
  by (simp add: frame_tick_def Planet_useFrame_returns MoonOrbit_useFrame_returns
      planet_rotation_y_def group_rotation_y_def without_spin_def split: option.splits)

lemma frame_ticks_returns:
  "\<exists>s'. frame_ticks ds s = Inr s' \<and>
        planet_rotation_y s' =
          map_option (\<lambda>a. foldl (\<lambda>a d. fadd a (fmul d (lit 0.1))) a ds) (planet_rotation_y s) \<and>
        group_rotation_y s' =
          map_option (\<lambda>a. foldl (\<lambda>a d. fadd a (fmul d (lit 0.4))) a ds) (group_rotation_y s) \<and>
        without_spin s' = without_spin s"
proof (induction ds arbitrary: s)
  case Nil
  show ?case by (simp add: option.map_ident)
next
  case (Cons d ds)
  obtain s1 where s1: "frame_tick d s = Inr s1"
    and p1: "planet_rotation_y s1 =
      map_option (\<lambda>a. fadd a (fmul d (lit 0.1))) (planet_rotation_y s)"
    and g1: "group_rotation_y s1 =
      map_option (\<lambda>a. fadd a (fmul d (lit 0.4))) (group_rotation_y s)"
    and w1: "without_spin s1 = without_spin s"
    using frame_tick_returns [of d s] by blast
  obtain s2 where s2: "frame_ticks ds s1 = Inr s2"
    and p2: "planet_rotation_y s2 =
      map_option (\<lambda>a. foldl (\<lambda>a d. fadd a (fmul d (lit 0.1))) a ds) (planet_rotation_y s1)"
    and g2: "group_rotation_y s2 =
      map_option (\<lambda>a. foldl (\<lambda>a d. fadd a (fmul d (lit 0.4))) a ds) (group_rotation_y s1)"
    and w2: "without_spin s2 = without_spin s1"
    using Cons.IH [of s1] by blast
  have "frame_ticks (d # ds) s = Inr s2" by (simp add: s1 s2)
  moreover have "planet_rotation_y s2 =
      map_option (\<lambda>a. foldl (\<lambda>a d. fadd a (fmul d (lit 0.1))) a (d # ds)) (planet_rotation_y s)"
    by (simp add: p2 p1 option.map_comp comp_def)
  moreover have "group_rotation_y s2 =
      map_option (\<lambda>a. foldl (\<lambda>a d. fadd a (fmul d (lit 0.4))) a (d # ds)) (group_rotation_y s)"
    by (simp add: g2 g1 option.map_comp comp_def)
  moreover have "without_spin s2 = without_spin s" by (simp add: w2 w1)
  ultimately show ?case by blast
qed

lemma mounted_planet_y: "planet_rotation_y mounted_scene = Some (lit 0)"
  by (simp add: planet_rotation_y_def mounted_scene_def Planet_mesh_def vec_def)

lemma mounted_group_y: "group_rotation_y mounted_scene = Some (lit 0.2)"
  by (simp add: group_rotation_y_def mounted_scene_def MoonOrbit_group_def vec_def)

lemma orbitRing_without_spin: "orbitRing (without_spin s) = orbitRing s"
  by (simp add: without_spin_def)

lemma children_without_spin:
  "map_option children (groupRef (without_spin s)) = map_option children (groupRef s)"
  by (simp add: without_spin_def option.map_comp comp_def)

lemma mounted_children:
  "map_option children (groupRef mounted_scene) = Some [Moon_mesh]"
  by (simp add: mounted_scene_def MoonOrbit_group_def)

lemma spin_after_eq:
  "spin_after ds = Some (foldl (\<lambda>a d. fadd a (fmul d (lit 0.1))) (lit 0) ds)"
  using frame_ticks_returns [of ds mounted_scene]
  unfolding mounted_planet_y option.map spin_after_def by auto

lemma orbit_after_eq:
  "orbit_after ds = Some (foldl (\<lambda>a d. fadd a (fmul d (lit 0.4))) (lit 0.2) ds)"
  using frame_ticks_returns [of ds mounted_scene]
  unfolding mounted_group_y option.map orbit_after_def by auto

text \<open>The doubles \<open>0.1\<close> and \<open>0.4\<close> round to themselves; the double sum of \<open>0.2\<close> and \<open>0.4\<close>.\<close>

lemma tenth_representable:
  "to_number (3602879701896397 / 2 ^ 55) = Finite (3602879701896397 / 2 ^ 55)"
  by (rule to_number_small, subst round64_eq [of "- 4"])
    (simp_all add: ties_to_even_def power_int_minus emin_def)

lemma two_fifths_representable:
  "to_number (3602879701896397 / 2 ^ 53) = Finite (3602879701896397 / 2 ^ 53)"
  by (rule to_number_small, subst round64_eq [of "- 2"])
    (simp_all add: ties_to_even_def power_int_minus emin_def)

lemma fifth_plus_two_fifths:
  "to_number (3602879701896397 / 2 ^ 54 + 3602879701896397 / 2 ^ 53) =
     Finite (5404319552844596 / 2 ^ 53)"
  by (rule to_number_small, subst round64_eq [of "- 1"])
    (simp_all add: ties_to_even_def power_int_minus emin_def)

lemma spin_error:
  assumes "spin_after (map Finite xs) = Some (Finite a)"
  shows "\<bar>a - 0.1 * sum_list xs\<bar> \<le> rounding_bound (length xs) (0.1 * sum_list (map abs xs))"
proof -
  have "foldl (\<lambda>a d. fadd a (fmul d (Finite (3602879701896397 / 2 ^ 55)))) (Finite 0)
      (map Finite xs) = Finite a"
    using assms unfolding spin_after_eq lit_tenth lit_0 by simp
  from accumulate_error [OF lit_tenth_error _ this, of 0] show ?thesis by simp
qed

lemma orbit_error:
  assumes "orbit_after (map Finite xs) = Some (Finite g)"
  shows "\<bar>g - (0.2 + 0.4 * sum_list xs)\<bar> \<le>
    rounding_bound (length xs) (0.2 + 0.4 * sum_list (map abs xs))"
proof -
  have "foldl (\<lambda>a d. fadd a (fmul d (Finite (3602879701896397 / 2 ^ 53))))
      (Finite (3602879701896397 / 2 ^ 54)) (map Finite xs) = Finite g"
    using assms unfolding orbit_after_eq lit_two_fifths lit_fifth by simp
  from accumulate_error [OF lit_two_fifths_error lit_fifth_error this] show ?thesis by simp
qed

lemma spin_after_one: "spin_after [Finite 1] = Some (Finite (3602879701896397 / 2 ^ 55))"
  by (simp only: spin_after_eq foldl.simps lit_tenth lit_0 fmul.simps mult_1
      tenth_representable fadd.simps add_0)

lemma orbit_after_one: "orbit_after [Finite 1] = Some (Finite (5404319552844596 / 2 ^ 53))"
  by (simp only: orbit_after_eq foldl.simps lit_two_fifths lit_fifth fmul.simps mult_1
      two_fifths_representable fadd.simps fifth_plus_two_fifths)

text \<open>
  C1, as amended. For every sequence of deltas delivered to the mounted scene, no
  callback throws; the planet's \<open>rotation.y\<close> is the result of adding the products
  \<open>d * 0.1\<close> one after the other, in double arithmetic, to \<open>0\<close>; and the orbit group's
  \<open>rotation.y\<close> is the result of adding the products \<open>d * 0.4\<close> to its mount-time value
  \<open>0.2\<close>. For finite deltas \<open>xs\<close> and while the angles are finite, the planet's angle is
  within the rounding bound of \<open>0.1\<close> times the sum of the deltas, and the orbit angle is
  within the rounding bound of \<open>0.2\<close> plus \<open>0.4\<close> times the sum. In each tick the
  orbit's increment \<open>d * 0.4\<close> is four times the planet's increment \<open>d * 0.1\<close>, when both
  are finite and the exact product of \<open>d\<close> with the double \<open>0.1\<close> is zero or in the
  normal range.
\<close>

theorem C1_rotation_accumulates:
  "spin_after ds = Some (foldl (\<lambda>a d. fadd a (fmul d (lit 0.1))) (lit 0) ds) \<and>
   orbit_after ds = Some (foldl (\<lambda>a d. fadd a (fmul d (lit 0.4))) (lit 0.2) ds) \<and>
   (spin_after (map Finite xs) = Some (Finite a) \<longrightarrow>
      \<bar>a - 0.1 * sum_list xs\<bar> \<le>
        rounding_bound (length xs) (0.1 * sum_list (map abs xs))) \<and>
   (orbit_after (map Finite xs) = Some (Finite g) \<longrightarrow>
      \<bar>g - (0.2 + 0.4 * sum_list xs)\<bar> \<le>
        rounding_bound (length xs) (0.2 + 0.4 * sum_list (map abs xs))) \<and>
   (lit 0.1 = Finite c \<and> (d = 0 \<or> 2 powi emin \<le> \<bar>d * c\<bar>) \<and>
    fmul (Finite d) (lit 0.1) = Finite p \<and> fmul (Finite d) (lit 0.4) = Finite q \<longrightarrow>
      q = 4 * p)"
proof (intro conjI impI)
  show "spin_after ds = Some (foldl (\<lambda>a d. fadd a (fmul d (lit 0.1))) (lit 0) ds)"
    by (rule spin_after_eq)
next
  show "orbit_after ds = Some (foldl (\<lambda>a d. fadd a (fmul d (lit 0.4))) (lit 0.2) ds)"
    by (rule orbit_after_eq)
next
  assume "spin_after (map Finite xs) = Some (Finite a)"
  then show "\<bar>a - 0.1 * sum_list xs\<bar> \<le>
      rounding_bound (length xs) (0.1 * sum_list (map abs xs))"
    by (rule spin_error)
next
  assume "orbit_after (map Finite xs) = Some (Finite g)"
  then show "\<bar>g - (0.2 + 0.4 * sum_list xs)\<bar> \<le>
      rounding_bound (length xs) (0.2 + 0.4 * sum_list (map abs xs))"
    by (rule orbit_error)
next
  assume "lit 0.1 = Finite c \<and> (d = 0 \<or> 2 powi emin \<le> \<bar>d * c\<bar>) \<and>
    fmul (Finite d) (lit 0.1) = Finite p \<and> fmul (Finite d) (lit 0.4) = Finite q"
  then show "q = 4 * p" using fmul_scale4 [of c d p q] by blast
qed

text \<open>
  One tick of one second: the delta, the products and the angles are finite doubles, the
  angles are within the rounding bound, and the increment of the orbit is four times the
  planet's.
\<close>

theorem C1_rotation_accumulates_witness:
  "spin_after (map Finite [1]) = Some (Finite (3602879701896397 / 2 ^ 55)) \<and>
   orbit_after (map Finite [1]) = Some (Finite (5404319552844596 / 2 ^ 53)) \<and>
   lit 0.1 = Finite (3602879701896397 / 2 ^ 55) \<and>
   2 powi emin \<le> \<bar>1 * (3602879701896397 / 2 ^ 55 :: real)\<bar> \<and>
   fmul (Finite 1) (lit 0.1) = Finite (3602879701896397 / 2 ^ 55) \<and>
   fmul (Finite 1) (lit 0.4) = Finite (3602879701896397 / 2 ^ 53) \<and>
   \<bar>3602879701896397 / 2 ^ 55 - 0.1 * sum_list [1]\<bar> \<le>
     rounding_bound (length [1 :: real]) (0.1 * sum_list (map abs [1])) \<and>
   \<bar>5404319552844596 / 2 ^ 53 - (0.2 + 0.4 * sum_list [1])\<bar> \<le>
     rounding_bound (length [1 :: real]) (0.2 + 0.4 * sum_list (map abs [1])) \<and>
   (3602879701896397 / 2 ^ 53 :: real) = 4 * (3602879701896397 / 2 ^ 55)"
proof -
  have s: "spin_after (map Finite [1]) = Some (Finite (3602879701896397 / 2 ^ 55))"
    by (simp only: list.map spin_after_one)
  have g: "orbit_after (map Finite [1]) = Some (Finite (5404319552844596 / 2 ^ 53))"
    by (simp only: list.map orbit_after_one)
  have c: "lit 0.1 = Finite (3602879701896397 / 2 ^ 55)" by (rule lit_tenth)
  have "(2::real) powi emin \<le> 2 powi (- 55)"
    by (rule power_int_increasing) (simp_all add: emin_def)
  then have r: "2 powi emin \<le> \<bar>1 * (3602879701896397 / 2 ^ 55 :: real)\<bar>"
    by (simp add: power_int_minus field_simps)
  have p: "fmul (Finite 1) (lit 0.1) = Finite (3602879701896397 / 2 ^ 55)"
    by (simp only: lit_tenth fmul.simps mult_1 tenth_representable)
  have q: "fmul (Finite 1) (lit 0.4) = Finite (3602879701896397 / 2 ^ 53)"
    by (simp only: lit_two_fifths fmul.simps mult_1 two_fifths_representable)
  show ?thesis
    using s g c r p q
      C1_rotation_accumulates [of "[Finite 1]" "[1]" "3602879701896397 / 2 ^ 55"
        "5404319552844596 / 2 ^ 53" "3602879701896397 / 2 ^ 55" 1
        "3602879701896397 / 2 ^ 55" "3602879701896397 / 2 ^ 53"]
    by blast
qed

text \<open>
  C1, as stated, fails after one tick of one second. The planet's \<open>rotation.y\<close> is the
  double \<open>0.1\<close>, and the orbit group's is \<open>0.6000000000000001\<close>, the double sum of \<open>0.2\<close>
  and \<open>0.4\<close>. Neither the orbit angle nor its advance over the mount-time \<open>0.2\<close> is
  \<open>0.4\<close> times the sum of the deltas, be it the real \<open>0.4\<close> or the double product, and
  neither is four times the planet's angle.
\<close>

theorem C1_orbit_angle_counterexample:
  "spin_after [Finite 1] = Some (Finite (3602879701896397 / 2 ^ 55)) \<and>
   orbit_after [Finite 1] = Some (Finite (5404319552844596 / 2 ^ 53)) \<and>
   lit 0.2 = Finite (3602879701896397 / 2 ^ 54) \<and>
   fmul (lit 0.4) (Finite 1) = Finite (3602879701896397 / 2 ^ 53) \<and>
   (5404319552844596 / 2 ^ 53 :: real) \<noteq> 0.4 * 1 \<and>
   (5404319552844596 / 2 ^ 53 :: real) \<noteq> 3602879701896397 / 2 ^ 53 \<and>
   (5404319552844596 / 2 ^ 53 :: real) \<noteq> 4 * (3602879701896397 / 2 ^ 55) \<and>
   (5404319552844596 / 2 ^ 53 - 3602879701896397 / 2 ^ 54 :: real) \<noteq> 0.4 * 1 \<and>
   (5404319552844596 / 2 ^ 53 - 3602879701896397 / 2 ^ 54 :: real) \<noteq>
     3602879701896397 / 2 ^ 53 \<and>
   (5404319552844596 / 2 ^ 53 - 3602879701896397 / 2 ^ 54 :: real) \<noteq>
     4 * (3602879701896397 / 2 ^ 55)"
proof -
  have prod: "fmul (lit 0.4) (Finite 1) = Finite (3602879701896397 / 2 ^ 53)"
    by (simp only: lit_two_fifths fmul.simps mult_1_right two_fifths_representable)
  show ?thesis
    unfolding spin_after_one orbit_after_one lit_fifth prod by simp
qed

text \<open>
  C6. Any number of frame ticks returns a scene that is the one it started from apart
  from the planet's \<open>rotation.y\<close> and the orbit group's \<open>rotation.y\<close>: the ring is
  untouched, the children of the group are untouched, the moon of the mounted scene stays
  at the offset \<open>(ORBIT_RADIUS, 0, 0)\<close>, and the ring keeps its tilt.
\<close>

theorem C6_frame_tick_changes_only_angles:
  "(\<exists>s'. frame_ticks ds s = Inr s' \<and>
         without_spin s' = without_spin s \<and>
         orbitRing s' = orbitRing s \<and>
         map_option children (groupRef s') = map_option children (groupRef s)) \<and>
   (\<exists>m. frame_ticks ds mounted_scene = Inr m \<and>
        map_option children (groupRef m) = Some [Moon_mesh] \<and>
        orbitRing m = OrbitRing_mesh) \<and>
   position Moon_mesh = vec ORBIT_RADIUS (lit 0) (lit 0) \<and>
   rotation OrbitRing_mesh = ORBIT_TILT"
proof -
  have frame: "\<exists>s'. frame_ticks ds s = Inr s' \<and>
         without_spin s' = without_spin s \<and>
         orbitRing s' = orbitRing s \<and>
         map_option children (groupRef s') = map_option children (groupRef s)" for s
  proof -
    obtain s' where s': "frame_ticks ds s = Inr s'" and w: "without_spin s' = without_spin s"
      using frame_ticks_returns [of ds s] by blast
    have "orbitRing s' = orbitRing s"
      using w orbitRing_without_spin [of s'] orbitRing_without_spin [of s] by simp
    moreover have "map_option children (groupRef s') = map_option children (groupRef s)"
      using w children_without_spin [of s'] children_without_spin [of s] by simp
    ultimately show ?thesis using s' w by blast
  qed
  have ring: "orbitRing mounted_scene = OrbitRing_mesh"
    by (simp add: mounted_scene_def)
  have mounted: "\<exists>m. frame_ticks ds mounted_scene = Inr m \<and>
        map_option children (groupRef m) = Some [Moon_mesh] \<and> orbitRing m = OrbitRing_mesh"
    using frame [of mounted_scene] unfolding mounted_children ring by blast
  have moon: "position Moon_mesh = vec ORBIT_RADIUS (lit 0) (lit 0)"
    by (simp add: Moon_mesh_def ORBIT_RADIUS_def)
  have tilt: "rotation OrbitRing_mesh = ORBIT_TILT"
    by (simp add: OrbitRing_mesh_def ORBIT_TILT_def)
  show ?thesis using frame [of s] mounted moon tilt by blast
qed

text \<open>
  C10. No callback throws, whatever the refs hold: each one, and a whole frame tick,
  returns a scene. A callback whose ref is \<open>null\<close> returns the scene it was given:
  \<open>Planet\<close>'s when \<open>planetRef.current\<close> is \<open>null\<close>, \<open>MoonOrbit\<close>'s when \<open>group.current\<close> is
  \<open>null\<close>, and a whole frame tick when both are. So a callback that changes the scene
  has a ref that is set.
\<close>

theorem C10_null_ref_no_update:
  "(\<exists>s'. Planet_useFrame delta s = Inr s') \<and>
   (\<exists>s'. MoonOrbit_useFrame delta s = Inr s') \<and>
   (\<exists>s'. frame_tick delta s = Inr s') \<and>
   (planetRef s = None \<longrightarrow> Planet_useFrame delta s = Inr s) \<and>
   (groupRef s = None \<longrightarrow> MoonOrbit_useFrame delta s = Inr s) \<and>
   (planetRef s = None \<and> groupRef s = None \<longrightarrow> frame_tick delta s = Inr s) \<and>
   (Planet_useFrame delta s \<noteq> Inr s \<longrightarrow> planetRef s \<noteq> None) \<and>
   (MoonOrbit_useFrame delta s \<noteq> Inr s \<longrightarrow> groupRef s \<noteq> None)"
proof -
  have planet: "planetRef s = None \<longrightarrow> Planet_useFrame delta s = Inr s"
    by (simp add: Planet_useFrame_def)
  have moon: "groupRef s = None \<longrightarrow> MoonOrbit_useFrame delta s = Inr s"
    by (simp add: MoonOrbit_useFrame_def)
  have both: "planetRef s = None \<and> groupRef s = None \<longrightarrow> frame_tick delta s = Inr s"
    by (simp add: frame_tick_def Planet_useFrame_def MoonOrbit_useFrame_def)
  have "\<exists>s'. Planet_useFrame delta s = Inr s'"
    by (simp add: Planet_useFrame_returns)
  moreover have "\<exists>s'. MoonOrbit_useFrame delta s = Inr s'"
    by (simp add: MoonOrbit_useFrame_returns)
  moreover have "\<exists>s'. frame_tick delta s = Inr s'"
    using frame_tick_returns [of delta s] by blast
  ultimately show ?thesis using planet moon both by blast
qed

text \<open>
  The scene whose refs are not attached yet is returned unchanged by a tick of the
  double \<open>0.016\<close>.
\<close>

theorem C10_null_ref_witness:
  "planetRef unattached_scene = None \<and> groupRef unattached_scene = None \<and>
   Planet_useFrame (lit 0.016) unattached_scene = Inr unattached_scene \<and>
   MoonOrbit_useFrame (lit 0.016) unattached_scene = Inr unattached_scene \<and>
   frame_tick (lit 0.016) unattached_scene = Inr unattached_scene"
  using C10_null_ref_no_update [of "lit 0.016" unattached_scene]
  by (simp add: unattached_scene_def)

section \<open>Properties of the hero section and its lights\<close>

text \<open>
  C4. A render of \<open>Hero3D\<close> holds exactly one of the \<open>Canvas\<close> and the fallback: the
  \<open>Canvas\<close> exactly when the capability result is true, the fallback exactly when it is
  false.
\<close>

theorem C4_exactly_one_mounted:
  "length (filter is_Canvas (Hero3D h)) + length (filter is_Fallback (Hero3D h)) = 1 \<and>
   list_ex is_Canvas (Hero3D h) = h \<and>
   list_ex is_Fallback (Hero3D h) = (\<not> h)"
  by (simp add: Hero3D_def)

text \<open>
  C7, as amended. The scene holds three lights: an ambient light of intensity \<open>0.35\<close>
  without position or shadow, one directional light of intensity \<open>1.1\<close> at \<open>(3, 2, 4)\<close>
  that casts shadows with a 1024 by 1024 shadow map, and one point light of intensity
  \<open>0.6\<close> at \<open>(-4, -2, -3)\<close> without shadow.
\<close>

theorem C7_three_lights:
  "map kind (view_lights (Hero3D True)) = [AmbientLight, DirectionalLight, PointLight] \<and>
   map intensity (view_lights (Hero3D True)) = [lit 0.35, lit 1.1, lit 0.6] \<and>
   map light_position (view_lights (Hero3D True)) =
     [None, Some (vec (lit 3) (lit 2) (lit 4)), Some (vec (lit (- 4)) (lit (- 2)) (lit (- 3)))] \<and>
   map light_castShadow (view_lights (Hero3D True)) = [False, True, False] \<and>
   map shadow_mapSize (view_lights (Hero3D True)) = [None, Some (1024, 1024), None]"
  by (simp add: view_lights_def Hero3D_def Lights_def)

text \<open>C7, as stated, fails: the lights of the scene are not two.\<close>

theorem C7_two_lights_counterexample:
  "length (view_lights (Hero3D True)) \<noteq> 2"
  by (simp add: view_lights_def Hero3D_def Lights_def)

section \<open>Properties of the scroll indicator\<close>

text \<open>
  C9. With the reduced-motion preference the computed \<open>animation\<close> of \<open>#wheel\<close> is
  \<open>none\<close>; without it the wheel runs the \<open>wheel\<close> keyframes for 1.8 s, ease-in-out,
  forever. \<open>Hero3D\<close> renders the scroll indicator for either capability result.
\<close>

theorem C9_reduced_motion_no_animation:
  "computed_animation True ''#wheel'' ScrollIndicator_style = NoAnimation \<and>
   computed_animation False ''#wheel'' ScrollIndicator_style =
     Animation ''wheel'' 1.8 ''ease-in-out'' Infinite \<and>
   ScrollIndicator \<in> set (Hero3D h)"
  by (simp add: computed_animation_def ScrollIndicator_style_def rule_applies_def Hero3D_def)

section \<open>Properties of the capability probe\<close>

lemma useHasWebGL_effect_total: "\<exists>b. useHasWebGL_effect env = Inr b"
  by (cases "probe_ok env") (auto simp: useHasWebGL_effect_def try_catch_def setHas_def)

lemma useHasWebGL_effect_throws:
  "probe_ok env = Inl e \<Longrightarrow> useHasWebGL_effect env = Inr False"
  by (simp add: useHasWebGL_effect_def try_catch_def setHas_def)

lemma useHasWebGL_effect_returns:
  "probe_ok env = Inr ok \<Longrightarrow> useHasWebGL_effect env = Inr ok"
  by (simp add: useHasWebGL_effect_def try_catch_def setHas_def)

lemma probe_ok_throws_iff:
  "throws (probe_ok env) =
     (case createElement_canvas env of
        Inl e \<Rightarrow> True
      | Inr cv \<Rightarrow>
          exposes_constructor env \<and>
          (throws (getContext cv ''webgl'') \<or>
           getContext cv ''webgl'' = Inr None \<and> throws (getContext cv ''experimental-webgl'')))"
  by (auto simp: probe_ok_def throws_def exposes_constructor_def split: sum.splits option.splits)

text \<open>
  C2, as amended. The probe reports true exactly when \<open>document.createElement\<close> returns
  a canvas, the environment exposes the constructor, and either \<open>getContext("webgl")\<close>
  returns a context, or it returns \<open>null\<close> and \<open>getContext("experimental-webgl")\<close> returns
  a context. In every other environment it reports false: the constructor is absent, both
  calls return \<open>null\<close>, or a step throws.
\<close>

theorem C2_probe_true_iff:
  "useHasWebGL_effect env =
     Inr (case createElement_canvas env of
            Inl e \<Rightarrow> False
          | Inr cv \<Rightarrow>
              exposes_constructor env \<and>
              (creates_context cv ''webgl'' \<or>
               getContext cv ''webgl'' = Inr None \<and>
               creates_context cv ''experimental-webgl''))"
proof (cases "probe_ok env")
  case (Inl e)
  then have "throws (probe_ok env)" by (simp add: throws_def)
  then have "case createElement_canvas env of
        Inl e \<Rightarrow> True
      | Inr cv \<Rightarrow>
          exposes_constructor env \<and>
          (throws (getContext cv ''webgl'') \<or>
           getContext cv ''webgl'' = Inr None \<and> throws (getContext cv ''experimental-webgl''))"
    by (simp only: probe_ok_throws_iff)
  then have "\<not> (case createElement_canvas env of
            Inl e \<Rightarrow> False
          | Inr cv \<Rightarrow>
              exposes_constructor env \<and>
              (creates_context cv ''webgl'' \<or>
               getContext cv ''webgl'' = Inr None \<and>
               creates_context cv ''experimental-webgl''))"
    by (auto simp: throws_def creates_context_def split: sum.splits option.splits)
  then show ?thesis using Inl by (simp add: useHasWebGL_effect_throws)
next
  case (Inr ok)
  then have "useHasWebGL_effect env = Inr ok" by (rule useHasWebGL_effect_returns)
  moreover from Inr have "ok = (case createElement_canvas env of
            Inl e \<Rightarrow> False
          | Inr cv \<Rightarrow>
              exposes_constructor env \<and>
              (creates_context cv ''webgl'' \<or>
               getContext cv ''webgl'' = Inr None \<and>
               creates_context cv ''experimental-webgl''))"
    by (auto simp: probe_ok_def exposes_constructor_def creates_context_def
        split: sum.splits option.splits if_splits)
  ultimately show ?thesis by simp
qed

text \<open>
  C2, as stated, fails where \<open>getContext("webgl")\<close> throws: the constructor is exposed
  and \<open>"experimental-webgl"\<close> would give a context, yet the probe reports false.
\<close>

theorem C2_webgl_throws_counterexample:
  "\<not> ((useHasWebGL_effect env_webgl_throws = Inr True) =
      (exposes_constructor env_webgl_throws \<and>
       (creates_context canvas_webgl_throws ''webgl'' \<or>
        creates_context canvas_webgl_throws ''experimental-webgl'')))"
  by (simp add: useHasWebGL_effect_def try_catch_def setHas_def probe_ok_def env_webgl_throws_def
      canvas_webgl_throws_def exposes_constructor_def creates_context_def)

text \<open>
  C3. The effect of the probe always returns: no exception leaves it. When a step of the
  probe throws, and when the constructor is not exposed, it sets the result to false.
\<close>

theorem C3_probe_never_throws:
  "(\<exists>b. useHasWebGL_effect env = Inr b) \<and>
   (throws (probe_ok env) \<longrightarrow> useHasWebGL_effect env = Inr False) \<and>
   (\<not> exposes_constructor env \<longrightarrow> useHasWebGL_effect env = Inr False)"
proof (intro conjI impI)
  show "\<exists>b. useHasWebGL_effect env = Inr b" by (rule useHasWebGL_effect_total)
next
  assume "throws (probe_ok env)"
  then obtain e where "probe_ok env = Inl e" by (auto simp: throws_def split: sum.splits)
  then show "useHasWebGL_effect env = Inr False" by (rule useHasWebGL_effect_throws)
next
  assume "\<not> exposes_constructor env"
  then show "useHasWebGL_effect env = Inr False"
    by (auto simp: useHasWebGL_effect_def try_catch_def setHas_def probe_ok_def
        exposes_constructor_def split: sum.splits)
qed

text \<open>The environment with no \<open>document\<close>, \<open>window\<close> or constructor: the probe gives false.\<close>

theorem C3_probe_never_throws_witness:
  "throws (probe_ok env_no_apis) \<and> \<not> exposes_constructor env_no_apis \<and>
   useHasWebGL_effect env_no_apis = Inr False"
  using C3_probe_never_throws [of env_no_apis]
  by (simp add: probe_ok_def env_no_apis_def throws_def exposes_constructor_def)

section \<open>Properties of the hook over the lifetime of the page\<close>

lemma render_pass_mounted: "mounted h \<Longrightarrow> render_pass env h = Inr (Hero3D (has h), h)"
  by (simp add: render_pass_def)

lemma render_passes_mounted:
  "mounted h \<Longrightarrow> render_passes envs h = Inr (replicate (length envs) (Hero3D (has h)), h)"
  by (induction envs) (simp_all add: render_pass_mounted)

lemma render_pass_initial:
  "useHasWebGL_effect env = Inr b \<Longrightarrow>
   render_pass env initial_hook = Inr (Hero3D True, \<lparr>has = b, mounted = True, probes = 1\<rparr>)"
  by (simp add: render_pass_def initial_hook_def)

lemma render_passes_initial:
  assumes "useHasWebGL_effect env = Inr b"
  shows "render_passes (env # envs) initial_hook =
     Inr (Hero3D True # replicate (length envs) (Hero3D b),
          \<lparr>has = b, mounted = True, probes = 1\<rparr>)"
proof -
  have "render_passes envs \<lparr>has = b, mounted = True, probes = 1\<rparr> =
      Inr (replicate (length envs) (Hero3D b), \<lparr>has = b, mounted = True, probes = 1\<rparr>)"
    using render_passes_mounted [of "\<lparr>has = b, mounted = True, probes = 1\<rparr>" envs] by simp
  then show ?thesis
    by (simp add: render_pass_initial [OF assms])
qed

text \<open>
  C5. The state starts as true, so the first render pass shows the \<open>Canvas\<close> in every
  environment. When the probe finds no support, the state is false after the first pass
  and every later pass shows the fallback and no \<open>Canvas\<close>.
\<close>

theorem C5_initial_true_then_corrected:
  "has initial_hook \<and>
   (\<exists>vs h. render_passes (env # envs) initial_hook = Inr (Hero3D True # vs, h)) \<and>
   list_ex is_Canvas (Hero3D True) \<and>
   (useHasWebGL_effect env = Inr False \<longrightarrow>
      render_passes (env # envs) initial_hook =
        Inr (Hero3D True # replicate (length envs) (Hero3D False),
             \<lparr>has = False, mounted = True, probes = 1\<rparr>) \<and>
      list_ex is_Fallback (Hero3D False) \<and> \<not> list_ex is_Canvas (Hero3D False))"
proof -
  obtain b where b: "useHasWebGL_effect env = Inr b"
    using useHasWebGL_effect_total by blast
  have first: "\<exists>vs h. render_passes (env # envs) initial_hook = Inr (Hero3D True # vs, h)"
    using render_passes_initial [OF b] by blast
  have init: "has initial_hook" by (simp add: initial_hook_def)
  have views: "list_ex is_Canvas (Hero3D True)" "list_ex is_Fallback (Hero3D False)"
    "\<not> list_ex is_Canvas (Hero3D False)"
    by (simp_all add: Hero3D_def)
  show ?thesis
    using init first views render_passes_initial [of env False envs] by blast
qed

text \<open>
  A browser that creates no context at mount, followed by two passes in which WebGL
  would be available.
\<close>

theorem C5_initial_true_then_corrected_witness:
  "useHasWebGL_effect env_no_context = Inr False \<and>
   render_passes [env_no_context, env_webgl, env_webgl] initial_hook =
     Inr ([Hero3D True, Hero3D False, Hero3D False],
          \<lparr>has = False, mounted = True, probes = 1\<rparr>)"
proof -
  have h: "useHasWebGL_effect env_no_context = Inr False"
    by (simp add: useHasWebGL_effect_def try_catch_def setHas_def probe_ok_def
        env_no_context_def)
  show ?thesis
    using h C5_initial_true_then_corrected [of env_no_context "[env_webgl, env_webgl]"]
    by (simp add: numeral_3_eq_3 numeral_2_eq_2)
qed

text \<open>
  C8. Over any number of render passes of one mount, in whatever environments the later
  passes run, the effect runs once: the state after the first pass is the result of the
  probe in the first environment, every later pass renders with that result, and the
  count of probes is one.
\<close>

theorem C8_probe_runs_once:
  "\<exists>b. useHasWebGL_effect env = Inr b \<and>
       render_passes (env # envs) initial_hook =
         Inr (Hero3D True # replicate (length envs) (Hero3D b),
              \<lparr>has = b, mounted = True, probes = 1\<rparr>)"
proof -
  obtain b where b: "useHasWebGL_effect env = Inr b"
    using useHasWebGL_effect_total by blast
  with render_passes_initial [OF b] show ?thesis by blast
qed

end
